theory Spec2Isabelle
  imports Complex_Main
begin

section \<open>Floating-point values\<close>

text \<open>
  The program computes with Python floats and NumPy float64 values. A value is
  either not-a-number, one of the two infinities, or a finite number. The
  special values follow IEEE 754 as NumPy implements it: NaN is absorbing,
  \<open>inf - inf\<close>, \<open>0 * inf\<close>, \<open>0 / 0\<close> and \<open>inf / inf\<close> are NaN, a non-zero finite
  number divided by zero is an infinity, and every comparison with NaN is
  false. Arithmetic on finite numbers is exact arithmetic on the reals:
  rounding, overflow to infinity and the sign of zero are not part of the
  model.
\<close>

datatype f64 = NaN | PInf | NInf | Fin real

fun isnan :: "f64 \<Rightarrow> bool" where
  "isnan NaN = True"
| "isnan _ = False"

fun fneg :: "f64 \<Rightarrow> f64" where
  "fneg NaN = NaN"
| "fneg PInf = NInf"
| "fneg NInf = PInf"
| "fneg (Fin x) = Fin (- x)"

fun fadd :: "f64 \<Rightarrow> f64 \<Rightarrow> f64" where
  "fadd NaN _ = NaN"
| "fadd _ NaN = NaN"
| "fadd PInf NInf = NaN"
| "fadd NInf PInf = NaN"
| "fadd PInf _ = PInf"
| "fadd _ PInf = PInf"
| "fadd NInf _ = NInf"
| "fadd _ NInf = NInf"
| "fadd (Fin x) (Fin y) = Fin (x + y)"

definition fsub :: "f64 \<Rightarrow> f64 \<Rightarrow> f64" where
  "fsub a b = fadd a (fneg b)"

text \<open>The sign of a value that is not NaN; zero counts as positive.\<close>

fun fnegative :: "f64 \<Rightarrow> bool" where
  "fnegative NInf = True"
| "fnegative (Fin x) = (x < 0)"
| "fnegative _ = False"

definition signed_inf :: "bool \<Rightarrow> f64" where
  "signed_inf negative = (if negative then NInf else PInf)"

fun fmul :: "f64 \<Rightarrow> f64 \<Rightarrow> f64" where
  "fmul NaN _ = NaN"
| "fmul _ NaN = NaN"
| "fmul (Fin x) (Fin y) = Fin (x * y)"
| "fmul (Fin x) b = (if x = 0 then NaN else signed_inf ((x < 0) \<noteq> fnegative b))"
| "fmul a (Fin y) = (if y = 0 then NaN else signed_inf (fnegative a \<noteq> (y < 0)))"
| "fmul a b = signed_inf (fnegative a \<noteq> fnegative b)"

fun fdiv :: "f64 \<Rightarrow> f64 \<Rightarrow> f64" where
  "fdiv NaN _ = NaN"
| "fdiv _ NaN = NaN"
| "fdiv (Fin x) (Fin y) =
     (if y = 0 then (if x = 0 then NaN else signed_inf (x < 0)) else Fin (x / y))"
| "fdiv (Fin x) _ = Fin 0"
| "fdiv a (Fin y) = signed_inf (fnegative a \<noteq> (y < 0))"
| "fdiv _ _ = NaN"

fun fsqrt :: "f64 \<Rightarrow> f64" where
  "fsqrt NaN = NaN"
| "fsqrt PInf = PInf"
| "fsqrt NInf = NaN"
| "fsqrt (Fin x) = (if x < 0 then NaN else Fin (sqrt x))"

text \<open>Python's \<open>a < b\<close> and \<open>a == b\<close> on floats.\<close>

fun flt :: "f64 \<Rightarrow> f64 \<Rightarrow> bool" where
  "flt NaN _ = False"
| "flt _ NaN = False"
| "flt (Fin x) (Fin y) = (x < y)"
| "flt NInf b = (b \<noteq> NInf)"
| "flt a PInf = (a \<noteq> PInf)"
| "flt _ _ = False"

definition feq :: "f64 \<Rightarrow> f64 \<Rightarrow> bool" where
  "feq a b = (\<not> isnan a \<and> \<not> isnan b \<and> a = b)"

text \<open>\<open>np.clip(c, -1, 1)\<close>: NaN stays NaN.\<close>

fun fclip :: "f64 \<Rightarrow> f64" where
  "fclip NaN = NaN"
| "fclip PInf = Fin 1"
| "fclip NInf = Fin (- 1)"
| "fclip (Fin x) = Fin (max (- 1) (min 1 x))"

definition fsum :: "f64 list \<Rightarrow> f64" where
  "fsum xs = foldl fadd (Fin 0) xs"

text \<open>The expression \<open>x if not np.isnan(x) else 0.0\<close>.\<close>

definition nan_to_zero :: "f64 \<Rightarrow> f64" where
  "nan_to_zero x = (if \<not> isnan x then x else Fin 0)"

section \<open>Series and their statistics\<close>

text \<open>
  A pandas Series of floats indexed by date is the list of its rows in index
  order. Dates are day numbers. The index of a series that comes from the
  market-data provider has no duplicate dates.
\<close>

type_synonym date = nat
type_synonym series = "(date \<times> f64) list"

definition values_of :: "series \<Rightarrow> f64 list" where
  "values_of s = map snd s"

text \<open>\<open>Series.dropna()\<close> removes the rows whose value is NaN; infinities stay.\<close>

definition dropna :: "series \<Rightarrow> series" where
  "dropna s = filter (\<lambda>r. \<not> isnan (snd r)) s"

text \<open>
  \<open>Series.mean()\<close> and \<open>Series.std()\<close> skip NaN values. The mean is the sum of
  the remaining values over their count, NaN when none remains. The standard
  deviation uses \<open>ddof = 1\<close>: the squared deviations from the mean are summed
  and divided by the count minus one, and the result is NaN when the count is
  at most one.
\<close>

definition valid :: "f64 list \<Rightarrow> f64 list" where
  "valid xs = filter (\<lambda>x. \<not> isnan x) xs"

definition series_mean :: "f64 list \<Rightarrow> f64" where
  "series_mean xs =
     (let vs = valid xs in
      if vs = [] then NaN else fdiv (fsum vs) (Fin (real (length vs))))"

definition series_var :: "f64 list \<Rightarrow> f64" where
  "series_var xs =
     (let vs = valid xs; n = length vs in
      if n \<le> 1 then NaN
      else let avg = fdiv (fsum vs) (Fin (real n)) in
        fdiv (fsum (map (\<lambda>v. fmul (fsub avg v) (fsub avg v)) vs)) (Fin (real (n - 1))))"

definition series_std :: "f64 list \<Rightarrow> f64" where
  "series_std xs = fsqrt (series_var xs)"

section \<open>The Sharpe ratio\<close>

definition default_risk_free_rate :: f64 where
  "default_risk_free_rate = Fin (2 / 100)"

definition excess_returns :: "f64 list \<Rightarrow> f64 \<Rightarrow> f64 list" where
  "excess_returns returns risk_free_rate =
     map (\<lambda>x. fsub x (fdiv risk_free_rate (Fin 12))) returns"

definition calculate_sharpe_ratio :: "series \<Rightarrow> f64 \<Rightarrow> f64" where
  "calculate_sharpe_ratio returns risk_free_rate =
     (if returns = [] \<or> list_all isnan (values_of returns) then Fin 0
      else let excess = excess_returns (values_of returns) risk_free_rate in
        if feq (series_std excess) (Fin 0) then Fin 0
        else fmul (Fin (sqrt 12)) (fdiv (series_mean excess) (series_std excess)))"

section \<open>Correlation\<close>

text \<open>
  \<open>Series.corr\<close> with the default method first removes the positions at which
  either value is NaN and returns NaN when nothing is left. The rest is
  \<open>np.corrcoef(a, b)[0, 1]\<close>: the covariance matrix with \<open>ddof = 1\<close> (the
  products of the deviations are summed and multiplied by \<open>1 / (n - 1)\<close>, the
  divisor being replaced by zero when it is not positive), its off-diagonal
  entry divided by the square roots of both diagonal entries, one after the
  other, and clipped to the interval from -1 to 1.
\<close>

definition fdot :: "f64 list \<Rightarrow> f64 list \<Rightarrow> f64" where
  "fdot xs ys = fsum (map2 fmul xs ys)"

definition deviations :: "f64 list \<Rightarrow> f64 list" where
  "deviations xs = (let avg = fdiv (fsum xs) (Fin (real (length xs))) in map (\<lambda>x. fsub x avg) xs)"

definition cov_scale :: "nat \<Rightarrow> f64" where
  "cov_scale n = fdiv (Fin 1) (Fin (if n \<le> 1 then 0 else real (n - 1)))"

definition corrcoef :: "f64 list \<Rightarrow> f64 list \<Rightarrow> f64" where
  "corrcoef xs ys =
     (let dx = deviations xs; dy = deviations ys; k = cov_scale (length xs);
          cxy = fmul (fdot dx dy) k; cxx = fmul (fdot dx dx) k; cyy = fmul (fdot dy dy) k
      in fclip (fdiv (fdiv cxy (fsqrt cxx)) (fsqrt cyy)))"

definition corr :: "f64 list \<Rightarrow> f64 list \<Rightarrow> f64" where
  "corr a b =
     (let ps = filter (\<lambda>p. \<not> isnan (fst p) \<and> \<not> isnan (snd p)) (zip a b) in
      if ps = [] then NaN else corrcoef (map fst ps) (map snd ps))"

section \<open>Monthly returns from the market-data provider\<close>

text \<open>
  \<open>Series.pct_change()\<close> fills a missing price with the last one before it (the
  default \<open>fill_method\<close> of pandas 1 and 2), divides every price by the price
  one row earlier and subtracts one. The first row has no earlier price and
  gets NaN.
\<close>

fun ffill_from :: "f64 \<Rightarrow> f64 list \<Rightarrow> f64 list" where
  "ffill_from prev [] = []"
| "ffill_from prev (x # xs) =
     (if isnan x then prev # ffill_from prev xs else x # ffill_from x xs)"

definition ffill :: "f64 list \<Rightarrow> f64 list" where
  "ffill xs = ffill_from NaN xs"

definition shift1 :: "f64 list \<Rightarrow> f64 list" where
  "shift1 xs = (if xs = [] then [] else NaN # butlast xs)"

definition pct_change_values :: "f64 list \<Rightarrow> f64 list" where
  "pct_change_values xs =
     (let ys = ffill xs in map2 (\<lambda>cur prev. fsub (fdiv cur prev) (Fin 1)) ys (shift1 ys))"

definition pct_change :: "series \<Rightarrow> series" where
  "pct_change s = zip (map fst s) (pct_change_values (map snd s))"

text \<open>
  A data frame of the provider: either it has an \<open>Adj Close\<close> column, and is
  given by that column, or it has the row labels and other columns only.
\<close>

datatype frame = WithAdjClose series | WithoutAdjClose "date list"

fun frame_empty :: "frame \<Rightarrow> bool" where
  "frame_empty (WithAdjClose s) = (s = [])"
| "frame_empty (WithoutAdjClose ds) = (ds = [])"

datatype exn = ProviderError string | KeyError string | IndexError

fun adj_close :: "frame \<Rightarrow> exn + series" where
  "adj_close (WithAdjClose s) = Inr s"
| "adj_close (WithoutAdjClose ds) = Inl (KeyError ''Adj Close'')"

text \<open>
  The provider is outside the program. It answers a request for the history
  of a symbol with a frame or by raising, and it may answer the same request
  differently at different times: it has a state of its own. The world
  records every request made, in order.
\<close>

datatype request = HistoryPeriod1d string | HistoryMonthly string string string

datatype reply = Raises string | Returns frame

type_synonym 'p provider = "'p \<Rightarrow> request \<Rightarrow> reply \<times> 'p"

record 'p world =
  provider_state :: 'p
  requests :: "request list"

definition history :: "'p provider \<Rightarrow> request \<Rightarrow> 'p world \<Rightarrow> (exn + frame) \<times> 'p world" where
  "history prov req w =
     (case prov (provider_state w) req of
        (rep, p') \<Rightarrow>
          ((case rep of Raises msg \<Rightarrow> Inl (ProviderError msg) | Returns f \<Rightarrow> Inr f),
           w\<lparr>provider_state := p', requests := requests w @ [req]\<rparr>))"

text \<open>The body of the \<open>try\<close> statement of \<open>get_monthly_returns\<close>.\<close>

definition get_monthly_returns_try ::
  "'p provider \<Rightarrow> string \<Rightarrow> string \<Rightarrow> string \<Rightarrow> 'p world \<Rightarrow> (exn + series) \<times> 'p world" where
  "get_monthly_returns_try prov symbol start_date end_date w =
     (case history prov (HistoryPeriod1d symbol) w of
        (Inl e, w1) \<Rightarrow> (Inl e, w1)
      | (Inr daily_data, w1) \<Rightarrow>
          if frame_empty daily_data then (Inr [], w1)
          else (case history prov (HistoryMonthly symbol start_date end_date) w1 of
                  (Inl e, w2) \<Rightarrow> (Inl e, w2)
                | (Inr df, w2) \<Rightarrow>
                    if frame_empty df then (Inr [], w2)
                    else (case adj_close df of
                            Inl e \<Rightarrow> (Inl e, w2)
                          | Inr col \<Rightarrow> (Inr (dropna (pct_change col)), w2))))"

text \<open>The \<open>except Exception\<close> clause returns an empty series.\<close>

definition get_monthly_returns ::
  "'p provider \<Rightarrow> string \<Rightarrow> string \<Rightarrow> string \<Rightarrow> 'p world \<Rightarrow> series \<times> 'p world" where
  "get_monthly_returns prov symbol start_date end_date w =
     (case get_monthly_returns_try prov symbol start_date end_date w of
        (Inl e, w') \<Rightarrow> ([], w')
      | (Inr s, w') \<Rightarrow> (s, w'))"

section \<open>Dictionaries and sorting as Python has them\<close>

text \<open>
  A dictionary keeps its keys in the order of their first insertion; storing
  under a key that is present replaces the value in place.
\<close>

fun dict_set :: "'k \<Rightarrow> 'v \<Rightarrow> ('k \<times> 'v) list \<Rightarrow> ('k \<times> 'v) list" where
  "dict_set k v [] = [(k, v)]"
| "dict_set k v (p # ps) = (if fst p = k then (k, v) # ps else p # dict_set k v ps)"

text \<open>
  \<open>sorted(items, key=...)\<close> compares keys with \<open><\<close> only. On a list of fewer
  than 64 items CPython finds the run the list starts with (ascending, or
  strictly descending and then reversed) and inserts every later item by
  binary search. Longer lists are sorted by merging such runs, which gives
  the same result whenever \<open><\<close> orders the keys totally.
\<close>

fun ascending_run :: "('k \<Rightarrow> 'k \<Rightarrow> bool) \<Rightarrow> ('a \<Rightarrow> 'k) \<Rightarrow> 'a \<Rightarrow> 'a list \<Rightarrow> 'a list \<times> 'a list" where
  "ascending_run lt key prev [] = ([], [])"
| "ascending_run lt key prev (x # xs) =
     (if lt (key x) (key prev) then ([], x # xs)
      else (case ascending_run lt key x xs of (run, rest) \<Rightarrow> (x # run, rest)))"

fun descending_run :: "('k \<Rightarrow> 'k \<Rightarrow> bool) \<Rightarrow> ('a \<Rightarrow> 'k) \<Rightarrow> 'a \<Rightarrow> 'a list \<Rightarrow> 'a list \<times> 'a list" where
  "descending_run lt key prev [] = ([], [])"
| "descending_run lt key prev (x # xs) =
     (if lt (key x) (key prev)
      then (case descending_run lt key x xs of (run, rest) \<Rightarrow> (x # run, rest))
      else ([], x # xs))"

function insertion_point ::
  "('k \<Rightarrow> 'k \<Rightarrow> bool) \<Rightarrow> ('a \<Rightarrow> 'k) \<Rightarrow> 'a \<Rightarrow> 'a list \<Rightarrow> nat \<Rightarrow> nat \<Rightarrow> nat" where
  "insertion_point lt key pivot a l r =
     (if l < r
      then (let p = l + (r - l) div 2 in
            if lt (key pivot) (key (a ! p)) then insertion_point lt key pivot a l p
            else insertion_point lt key pivot a (p + 1) r)
      else l)"
  by pat_completeness auto
termination
  by (relation "measure (\<lambda>(lt, key, pivot, a, l, r). r - l)") auto

declare insertion_point.simps [simp del]

fun binarysort :: "('k \<Rightarrow> 'k \<Rightarrow> bool) \<Rightarrow> ('a \<Rightarrow> 'k) \<Rightarrow> 'a list \<Rightarrow> 'a list \<Rightarrow> 'a list" where
  "binarysort lt key a [] = a"
| "binarysort lt key a (pivot # rest) =
     (let l = insertion_point lt key pivot a 0 (length a) in
      binarysort lt key (take l a @ pivot # drop l a) rest)"

fun py_sorted :: "('k \<Rightarrow> 'k \<Rightarrow> bool) \<Rightarrow> ('a \<Rightarrow> 'k) \<Rightarrow> 'a list \<Rightarrow> 'a list" where
  "py_sorted lt key [] = []"
| "py_sorted lt key [x] = [x]"
| "py_sorted lt key (x0 # x1 # xs) =
     (if lt (key x1) (key x0)
      then (case descending_run lt key x1 xs of
              (run, rest) \<Rightarrow> binarysort lt key (rev (x0 # x1 # run)) rest)
      else (case ascending_run lt key x1 xs of
              (run, rest) \<Rightarrow> binarysort lt key (x0 # x1 # run) rest))"

text \<open>\<open>str\<close> of a list of plain strings, as an f-string prints it.\<close>

definition py_repr_str :: "string \<Rightarrow> string" where
  "py_repr_str s = CHR 0x27 # s @ [CHR 0x27]"

fun join :: "string \<Rightarrow> string list \<Rightarrow> string" where
  "join sep [] = []"
| "join sep [x] = x"
| "join sep (x # y # ys) = x @ sep @ join sep (y # ys)"

definition py_str_list :: "string list \<Rightarrow> string" where
  "py_str_list xs = ''['' @ join '', '' (map py_repr_str xs) @ '']''"

fun exn_str :: "exn \<Rightarrow> string" where
  "exn_str (ProviderError msg) = msg"
| "exn_str (KeyError k) = py_repr_str k"
| "exn_str IndexError = ''list index out of range''"

section \<open>The analysis endpoint\<close>

record ticker_result =
  ticker :: string
  correlation :: f64
  sharpe_ratio :: f64
  returns :: "f64 list"

record analysis_result =
  stockData :: "ticker_result list"
  benchmarkReturns :: "f64 list"
  benchmarkUsed :: "string option"
  highestCorrTicker :: string
  lowestCorrTicker :: string

text \<open>The HTTP status with the JSON body.\<close>

datatype response = Ok200 analysis_result | Error400 string | Error500 string

definition benchmark_options :: "string list" where
  "benchmark_options = [''^IXIC'', ''^GSPC'']"

text \<open>
  The loop over the benchmark candidates, with its \<open>break\<close>. The loop
  variables are the series fetched last and the candidate chosen, if any.
\<close>

fun benchmark_loop ::
  "'p provider \<Rightarrow> string list \<Rightarrow> string \<Rightarrow> string \<Rightarrow> series \<times> string option \<times> 'p world
     \<Rightarrow> series \<times> string option \<times> 'p world" where
  "benchmark_loop prov [] start_date end_date st = st"
| "benchmark_loop prov (benchmark # rest) start_date end_date (benchmark_returns, benchmark_used, w) =
     (case get_monthly_returns prov benchmark start_date end_date w of
        (fetched, w') \<Rightarrow>
          if fetched \<noteq> [] then (fetched, Some benchmark, w')
          else benchmark_loop prov rest start_date end_date (fetched, benchmark_used, w'))"

text \<open>\<open>pd.concat([stock_returns, benchmark_returns], axis=1).dropna()\<close>: the rows
  of the two series are joined on their dates, a date of one series only
  getting a missing value for the other, and the rows with a missing value
  are dropped.\<close>

definition aligned_data :: "series \<Rightarrow> series \<Rightarrow> (date \<times> f64 \<times> f64) list" where
  "aligned_data stock_returns benchmark_returns =
     List.map_filter
       (\<lambda>(d, x). case map_of benchmark_returns d of
                   None \<Rightarrow> None
                 | Some y \<Rightarrow> if isnan x \<or> isnan y then None else Some (d, x, y))
       stock_returns"

definition column0 :: "(date \<times> f64 \<times> f64) list \<Rightarrow> f64 list" where
  "column0 rows = map (\<lambda>r. fst (snd r)) rows"

definition column1 :: "(date \<times> f64 \<times> f64) list \<Rightarrow> f64 list" where
  "column1 rows = map (\<lambda>r. snd (snd r)) rows"

definition raw_correlation :: "series \<Rightarrow> series \<Rightarrow> f64" where
  "raw_correlation stock_returns benchmark_returns =
     (if stock_returns \<noteq> [] \<and> benchmark_returns \<noteq> []
      then (let aligned = aligned_data stock_returns benchmark_returns in
            if aligned \<noteq> [] then corr (column0 aligned) (column1 aligned) else Fin 0)
      else Fin 0)"

text \<open>One round of the loop over the tickers.\<close>

definition ticker_step ::
  "'p provider \<Rightarrow> string \<Rightarrow> string \<Rightarrow> series
     \<Rightarrow> ticker_result list \<times> (string \<times> f64) list \<times> 'p world \<Rightarrow> string
     \<Rightarrow> ticker_result list \<times> (string \<times> f64) list \<times> 'p world" where
  "ticker_step prov start_date end_date benchmark_returns st tkr =
     (case st of (results, correlations, w) \<Rightarrow>
      (case get_monthly_returns prov tkr start_date end_date w of
        (stock_returns, w') \<Rightarrow>
          (let corr_value = raw_correlation stock_returns benchmark_returns;
               sharpe = calculate_sharpe_ratio stock_returns default_risk_free_rate
           in (results @ [\<lparr>ticker = tkr,
                           correlation = nan_to_zero corr_value,
                           sharpe_ratio = nan_to_zero sharpe,
                           returns = map nan_to_zero (values_of stock_returns)\<rparr>],
               dict_set tkr corr_value correlations,
               w'))))"

definition ticker_loop ::
  "'p provider \<Rightarrow> string list \<Rightarrow> string \<Rightarrow> string \<Rightarrow> series \<Rightarrow> 'p world
     \<Rightarrow> ticker_result list \<times> (string \<times> f64) list \<times> 'p world" where
  "ticker_loop prov tickers start_date end_date benchmark_returns w =
     foldl (ticker_step prov start_date end_date benchmark_returns) ([], [], w) tickers"

text \<open>\<open>tickers[0]\<close>.\<close>

fun first_ticker :: "string list \<Rightarrow> exn + string" where
  "first_ticker [] = Inl IndexError"
| "first_ticker (t # ts) = Inr t"

definition benchmark_error_msg :: string where
  "benchmark_error_msg =
     ''Unable to fetch benchmark data. Tried '' @ py_str_list benchmark_options
       @ ''. Please try again later.''"

text \<open>The body of the \<open>try\<close> statement of \<open>get_stock_analysis\<close>, after the
  ticker list has been read from the request and the date window from the
  clock. A request without a list of ticker strings is not modelled, and
  neither is the printing to the console.\<close>

definition get_stock_analysis_try ::
  "'p provider \<Rightarrow> string list \<Rightarrow> string \<Rightarrow> string \<Rightarrow> 'p world \<Rightarrow> (exn + response) \<times> 'p world" where
  "get_stock_analysis_try prov tickers start_date end_date w =
     (case benchmark_loop prov benchmark_options start_date end_date ([], None, w) of
        (benchmark_returns, benchmark_used, w1) \<Rightarrow>
          if benchmark_returns = [] then (Inr (Error400 benchmark_error_msg), w1)
          else (case ticker_loop prov tickers start_date end_date benchmark_returns w1 of
            (results, correlations, w2) \<Rightarrow>
              (let sorted_correlations = py_sorted flt snd correlations in
               case (if sorted_correlations \<noteq> [] then Inr (fst (hd sorted_correlations))
                     else first_ticker tickers) of
                 Inl e \<Rightarrow> (Inl e, w2)
               | Inr lowest_corr_ticker \<Rightarrow>
                   (case (if sorted_correlations \<noteq> [] then Inr (fst (last sorted_correlations))
                          else first_ticker tickers) of
                      Inl e \<Rightarrow> (Inl e, w2)
                    | Inr highest_corr_ticker \<Rightarrow>
                        (Inr (Ok200 \<lparr>stockData = results,
                                     benchmarkReturns = map nan_to_zero (values_of benchmark_returns),
                                     benchmarkUsed = benchmark_used,
                                     highestCorrTicker = highest_corr_ticker,
                                     lowestCorrTicker = lowest_corr_ticker\<rparr>), w2)))))"

text \<open>The \<open>except Exception\<close> clause answers with status 500.\<close>

definition get_stock_analysis ::
  "'p provider \<Rightarrow> string list \<Rightarrow> string \<Rightarrow> string \<Rightarrow> 'p world \<Rightarrow> response \<times> 'p world" where
  "get_stock_analysis prov tickers start_date end_date w =
     (case get_stock_analysis_try prov tickers start_date end_date w of
        (Inl e, w') \<Rightarrow> (Error500 (''Error in analysis: '' @ exn_str e), w')
      | (Inr resp, w') \<Rightarrow> (resp, w'))"

section \<open>Textbook statistics on real numbers\<close>




section \<open>Example market data\<close>

text \<open>
  A provider that answers from a table: for each symbol the reply to the
  one-day probe and the reply to the monthly request. A symbol that is not in
  the table gets an empty frame.
\<close>

definition table_provider :: "(string \<times> reply \<times> reply) list \<Rightarrow> unit provider" where
  "table_provider tbl p req =
     (case req of
        HistoryPeriod1d s \<Rightarrow>
          (case map_of tbl s of None \<Rightarrow> Returns (WithAdjClose []) | Some r \<Rightarrow> fst r)
      | HistoryMonthly s a b \<Rightarrow>
          (case map_of tbl s of None \<Rightarrow> Returns (WithAdjClose []) | Some r \<Rightarrow> snd r),
      p)"

definition prices :: "real list \<Rightarrow> reply \<times> reply" where
  "prices xs =
     (Returns (WithAdjClose [(length xs, Fin (last xs))]),
      Returns (WithAdjClose (zip [1 ..< Suc (length xs)] (map Fin xs))))"

definition world0 :: "unit world" where
  "world0 = \<lparr>provider_state = (), requests = []\<rparr>"

definition start0 :: string where
  "start0 = ''2024-01-01''"

definition end0 :: string where
  "end0 = ''2024-12-31''"



text \<open>The symbol a request is about.\<close>

fun request_symbol :: "request \<Rightarrow> string" where
  "request_symbol (HistoryPeriod1d s) = s"
| "request_symbol (HistoryMonthly s a b) = s"




text \<open>
  A market in which the NASDAQ composite has prices for four months and three
  tickers are listed: one that moves with the benchmark, one whose price
  never changes, and one that moves against the benchmark. A second market
  knows the S&P 500 only.
\<close>

definition market_table :: "(string \<times> reply \<times> reply) list" where
  "market_table =
     [(''^IXIC'', prices [1, 1, 2, 6]),
      (''AAA'', prices [1, 1, 2, 6]),
      (''BBB'', prices [1, 1, 1, 1]),
      (''CCC'', prices [1, 3, 6, 6])]"

definition sp500_only_table :: "(string \<times> reply \<times> reply) list" where
  "sp500_only_table = [(''^GSPC'', prices [1, 1, 2, 6])]"


definition zero_result :: "string \<Rightarrow> ticker_result" where
  "zero_result t = \<lparr>ticker = t, correlation = Fin 0, sharpe_ratio = Fin 0, returns = []\<rparr>"

text \<open>The answer to a request for the three tickers of the example market.\<close>

definition market_response :: analysis_result where
  "market_response =
     \<lparr>stockData =
        [\<lparr>ticker = ''AAA'', correlation = Fin 1, sharpe_ratio = Fin (sqrt 12 * (599 / 600)),
          returns = [Fin 0, Fin 1, Fin 2]\<rparr>,
         \<lparr>ticker = ''BBB'', correlation = Fin 0, sharpe_ratio = Fin 0,
          returns = [Fin 0, Fin 0, Fin 0]\<rparr>,
         \<lparr>ticker = ''CCC'', correlation = Fin (- 1), sharpe_ratio = Fin (sqrt 12 * (599 / 600)),
          returns = [Fin 2, Fin 1, Fin 0]\<rparr>],
      benchmarkReturns = [Fin 0, Fin 1, Fin 2],
      benchmarkUsed = Some ''^IXIC'',
      highestCorrTicker = ''CCC'',
      lowestCorrTicker = ''AAA''\<rparr>"




text \<open>
  Python's \<open>a <= b\<close> read as \<open>not (b < a)\<close>, a list in ascending order of
  its keys, and a list none of whose keys is NaN.
\<close>

definition fle :: "f64 \<Rightarrow> f64 \<Rightarrow> bool" where
  "fle a b = (\<not> flt b a)"

definition ascending :: "('a \<Rightarrow> f64) \<Rightarrow> 'a list \<Rightarrow> bool" where
  "ascending key xs = sorted_wrt (\<lambda>x y. fle (key x) (key y)) xs"

definition no_nan_keys :: "('a \<Rightarrow> f64) \<Rightarrow> 'a list \<Rightarrow> bool" where
  "no_nan_keys key xs = list_all (\<lambda>x. \<not> isnan (key x)) xs"

section \<open>Sums of finite values\<close>







section \<open>The Sharpe ratio: results\<close>



section \<open>Correlation: symmetry\<close>









section \<open>Fetching returns: failures\<close>

lemma get_monthly_returns_cases:
  "get_monthly_returns prov symbol s e w =
     (case prov (provider_state w) (HistoryPeriod1d symbol) of
        (r1, p1) \<Rightarrow>
          (let w1 = w\<lparr>provider_state := p1, requests := requests w @ [HistoryPeriod1d symbol]\<rparr> in
           case r1 of
             Raises m \<Rightarrow> ([], w1)
           | Returns daily_data \<Rightarrow>
               if frame_empty daily_data then ([], w1)
               else (case prov p1 (HistoryMonthly symbol s e) of
                 (r2, p2) \<Rightarrow>
                   (let w2 = w\<lparr>provider_state := p2,
                              requests := requests w @ [HistoryPeriod1d symbol, HistoryMonthly symbol s e]\<rparr> in
                    case r2 of
                      Raises m \<Rightarrow> ([], w2)
                    | Returns df \<Rightarrow>
                        if frame_empty df then ([], w2)
                        else (case df of
                                WithoutAdjClose ds \<Rightarrow> ([], w2)
                              | WithAdjClose col \<Rightarrow> (dropna (pct_change col), w2))))))"
  by (simp add: get_monthly_returns_def get_monthly_returns_try_def history_def Let_def
      split: prod.splits reply.splits frame.splits)



section \<open>Returns from prices\<close>












section \<open>Benchmark selection\<close>

lemma get_monthly_returns_requests:
  "list_all (\<lambda>q. request_symbol q = symbol)
     (drop (length (requests w)) (requests (snd (get_monthly_returns prov symbol s e w))))"
  by (simp add: get_monthly_returns_cases Let_def split: prod.splits reply.splits frame.splits)

lemma benchmark_error_msg_text:
  "benchmark_error_msg =
     ''Unable to fetch benchmark data. Tried ['' @ [CHR 0x27] @ ''^IXIC'' @ [CHR 0x27] @ '', ''
       @ [CHR 0x27] @ ''^GSPC'' @ [CHR 0x27] @ '']. Please try again later.''"
  by (simp add: benchmark_error_msg_def py_str_list_def py_repr_str_def benchmark_options_def)

lemma benchmark_loop_options:
  "benchmark_loop prov benchmark_options s e ([], None, w) =
     (case get_monthly_returns prov ''^IXIC'' s e w of
        (r1, w1) \<Rightarrow>
          if r1 \<noteq> [] then (r1, Some ''^IXIC'', w1)
          else (case get_monthly_returns prov ''^GSPC'' s e w1 of
                  (r2, w2) \<Rightarrow> if r2 \<noteq> [] then (r2, Some ''^GSPC'', w2) else (r2, None, w2)))"
  by (simp add: benchmark_options_def split: prod.splits)

lemma get_stock_analysis_400:
  "fst (benchmark_loop prov benchmark_options s e ([], None, w)) = [] \<Longrightarrow>
   get_stock_analysis prov tickers s e w =
     (Error400 benchmark_error_msg, snd (snd (benchmark_loop prov benchmark_options s e ([], None, w))))"
proof -
  assume a: "fst (benchmark_loop prov benchmark_options s e ([], None, w)) = []"
  obtain br bu w1 where bl: "benchmark_loop prov benchmark_options s e ([], None, w) = (br, bu, w1)"
    by (cases "benchmark_loop prov benchmark_options s e ([], None, w)")
  with a have "br = []" by simp
  then show ?thesis
    by (simp add: get_stock_analysis_def get_stock_analysis_try_def bl)
qed

text \<open>
  Claim C4. The benchmark candidates are tried in the order \<open>^IXIC\<close>, \<open>^GSPC\<close>.
  When the first has a non-empty return series it is used, and the requests
  made to the provider are about \<open>^IXIC\<close> only; otherwise the second is used
  when its series is non-empty. When both are empty the answer is status 400
  with a message that names both symbols, and the world is as the second
  fetch left it: no ticker is fetched.
\<close>

theorem benchmark_selection:
  "benchmark_options = [''^IXIC'', ''^GSPC'']
   \<and> (case get_monthly_returns prov ''^IXIC'' s e w of
        (r1, w1) \<Rightarrow>
          (r1 \<noteq> [] \<longrightarrow>
             benchmark_loop prov benchmark_options s e ([], None, w) = (r1, Some ''^IXIC'', w1)
             \<and> list_all (\<lambda>q. request_symbol q = ''^IXIC'') (drop (length (requests w)) (requests w1)))
          \<and> (r1 = [] \<longrightarrow>
               (case get_monthly_returns prov ''^GSPC'' s e w1 of
                  (r2, w2) \<Rightarrow>
                    (r2 \<noteq> [] \<longrightarrow>
                       benchmark_loop prov benchmark_options s e ([], None, w) = (r2, Some ''^GSPC'', w2))
                    \<and> (r2 = [] \<longrightarrow>
                         get_stock_analysis prov tickers s e w = (Error400 benchmark_error_msg, w2)))))
   \<and> benchmark_error_msg =
       ''Unable to fetch benchmark data. Tried ['' @ [CHR 0x27] @ ''^IXIC'' @ [CHR 0x27] @ '', ''
         @ [CHR 0x27] @ ''^GSPC'' @ [CHR 0x27] @ '']. Please try again later.''"
proof (intro conjI)
  show "benchmark_options = [''^IXIC'', ''^GSPC'']" by (simp add: benchmark_options_def)
next
  show "benchmark_error_msg =
       ''Unable to fetch benchmark data. Tried ['' @ [CHR 0x27] @ ''^IXIC'' @ [CHR 0x27] @ '', ''
         @ [CHR 0x27] @ ''^GSPC'' @ [CHR 0x27] @ '']. Please try again later.''"
    by (rule benchmark_error_msg_text)
next
  obtain r1 w1 where g1: "get_monthly_returns prov ''^IXIC'' s e w = (r1, w1)"
    by (cases "get_monthly_returns prov ''^IXIC'' s e w")
  obtain r2 w2 where g2: "get_monthly_returns prov ''^GSPC'' s e w1 = (r2, w2)"
    by (cases "get_monthly_returns prov ''^GSPC'' s e w1")
  have req: "list_all (\<lambda>q. request_symbol q = ''^IXIC'') (drop (length (requests w)) (requests w1))"
    using get_monthly_returns_requests [of "''^IXIC''" w prov s e] by (simp add: g1)
  have bl: "benchmark_loop prov benchmark_options s e ([], None, w) =
      (if r1 \<noteq> [] then (r1, Some ''^IXIC'', w1)
       else if r2 \<noteq> [] then (r2, Some ''^GSPC'', w2) else (r2, None, w2))"
    by (simp add: benchmark_loop_options g1 g2)
  have e400: "r1 = [] \<Longrightarrow> r2 = [] \<Longrightarrow>
      get_stock_analysis prov tickers s e w = (Error400 benchmark_error_msg, w2)"
    using get_stock_analysis_400 [of prov s e w tickers] by (simp add: bl)
  show "case get_monthly_returns prov ''^IXIC'' s e w of
        (r1, w1) \<Rightarrow>
          (r1 \<noteq> [] \<longrightarrow>
             benchmark_loop prov benchmark_options s e ([], None, w) = (r1, Some ''^IXIC'', w1)
             \<and> list_all (\<lambda>q. request_symbol q = ''^IXIC'') (drop (length (requests w)) (requests w1)))
          \<and> (r1 = [] \<longrightarrow>
               (case get_monthly_returns prov ''^GSPC'' s e w1 of
                  (r2, w2) \<Rightarrow>
                    (r2 \<noteq> [] \<longrightarrow>
                       benchmark_loop prov benchmark_options s e ([], None, w) = (r2, Some ''^GSPC'', w2))
                    \<and> (r2 = [] \<longrightarrow>
                         get_stock_analysis prov tickers s e w = (Error400 benchmark_error_msg, w2))))"
    using req e400 by (simp add: g1 g2 bl)
qed


lemmas eval_fetch = get_monthly_returns_cases table_provider_def prices_def world0_def
  dropna_def pct_change_def pct_change_values_def ffill_def shift1_def fsub_def Let_def

theorem benchmark_selection_witness:
  "fst (get_monthly_returns (table_provider market_table) ''^IXIC'' start0 end0 world0) \<noteq> []
   \<and> fst (snd (benchmark_loop (table_provider market_table) benchmark_options start0 end0
                 ([], None, world0))) = Some ''^IXIC''
   \<and> fst (get_monthly_returns (table_provider sp500_only_table) ''^IXIC'' start0 end0 world0) = []
   \<and> fst (snd (benchmark_loop (table_provider sp500_only_table) benchmark_options start0 end0
                 ([], None, world0))) = Some ''^GSPC''
   \<and> fst (get_monthly_returns (table_provider []) ''^IXIC'' start0 end0 world0) = []
   \<and> fst (get_stock_analysis (table_provider []) [''AAA''] start0 end0 world0)
       = Error400 benchmark_error_msg"
proof -
  have 1: "get_monthly_returns (table_provider market_table) ''^IXIC'' start0 end0 world0
     = ([(2, Fin 0), (3, Fin 1), (4, Fin 2)],
        \<lparr>provider_state = (),
         requests = [HistoryPeriod1d ''^IXIC'', HistoryMonthly ''^IXIC'' start0 end0]\<rparr>)"
    by (simp add: eval_fetch market_table_def)
  have 2: "get_monthly_returns (table_provider sp500_only_table) ''^IXIC'' start0 end0 world0
     = ([], \<lparr>provider_state = (), requests = [HistoryPeriod1d ''^IXIC'']\<rparr>)"
    by (simp add: eval_fetch sp500_only_table_def)
  have 3: "get_monthly_returns (table_provider sp500_only_table) ''^GSPC'' start0 end0
       \<lparr>provider_state = (), requests = [HistoryPeriod1d ''^IXIC'']\<rparr>
     = ([(2, Fin 0), (3, Fin 1), (4, Fin 2)],
        \<lparr>provider_state = (),
         requests = [HistoryPeriod1d ''^IXIC'', HistoryPeriod1d ''^GSPC'',
                     HistoryMonthly ''^GSPC'' start0 end0]\<rparr>)"
    by (simp add: eval_fetch sp500_only_table_def)
  have 4: "get_monthly_returns (table_provider []) ''^IXIC'' start0 end0 world0
     = ([], \<lparr>provider_state = (), requests = [HistoryPeriod1d ''^IXIC'']\<rparr>)"
    by (simp add: eval_fetch)
  have 5: "get_monthly_returns (table_provider []) ''^GSPC'' start0 end0
       \<lparr>provider_state = (), requests = [HistoryPeriod1d ''^IXIC'']\<rparr>
     = ([], \<lparr>provider_state = (), requests = [HistoryPeriod1d ''^IXIC'', HistoryPeriod1d ''^GSPC'']\<rparr>)"
    by (simp add: eval_fetch)
  show ?thesis
    using benchmark_selection [of "table_provider market_table" start0 end0 world0 "[''AAA'']"]
      benchmark_selection [of "table_provider sp500_only_table" start0 end0 world0 "[''AAA'']"]
      benchmark_selection [of "table_provider []" start0 end0 world0 "[''AAA'']"]
    by (simp add: 1 2 3 4 5)
qed

section \<open>The loop over the tickers\<close>


lemma ticker_step_eq:
  "ticker_step prov s e b (rs, cs, w) t =
     (let sr = fst (get_monthly_returns prov t s e w) in
      (rs @ [\<lparr>ticker = t,
              correlation = nan_to_zero (raw_correlation sr b),
              sharpe_ratio = nan_to_zero (calculate_sharpe_ratio sr default_risk_free_rate),
              returns = map nan_to_zero (values_of sr)\<rparr>],
       dict_set t (raw_correlation sr b) cs,
       snd (get_monthly_returns prov t s e w)))"
  by (simp add: ticker_step_def Let_def split: prod.splits)

lemma ticker_step_failed:
  assumes "fst (get_monthly_returns prov t s e w) = []"
  shows "fst (ticker_step prov s e b (rs, cs, w) t) = rs @ [zero_result t]"
  using assms
  by (simp add: ticker_step_eq Let_def zero_result_def raw_correlation_def
      calculate_sharpe_ratio_def values_of_def nan_to_zero_def)

lemma dict_set_not_empty: "dict_set k v d \<noteq> []"
  by (cases d) simp_all

lemma foldl_ticker_step_tickers:
  "map ticker (fst (foldl (ticker_step prov s e b) st ts)) = map ticker (fst st) @ ts"
proof (induction ts arbitrary: st)
  case Nil show ?case by simp
next
  case (Cons t ts)
  obtain rs cs w where st: "st = (rs, cs, w)" by (cases st)
  show ?case by (simp add: Cons.IH st ticker_step_eq Let_def)
qed


lemma foldl_ticker_step_correlations:
  "fst (snd st) \<noteq> [] \<or> ts \<noteq> [] \<Longrightarrow> fst (snd (foldl (ticker_step prov s e b) st ts)) \<noteq> []"
proof (induction ts arbitrary: st)
  case Nil then show ?case by simp
next
  case (Cons t ts)
  obtain rs cs w where st: "st = (rs, cs, w)" by (cases st)
  have "fst (snd (ticker_step prov s e b st t)) \<noteq> []"
    by (simp add: st ticker_step_eq Let_def dict_set_not_empty)
  then show ?case using Cons.IH by simp
qed

lemma foldl_ticker_step_all_failed:
  assumes "\<And>t w'. t \<in> set ts \<Longrightarrow> fst (get_monthly_returns prov t s e w') = []"
  shows "fst (foldl (ticker_step prov s e b) st ts) = fst st @ map zero_result ts"
  using assms
proof (induction ts arbitrary: st)
  case Nil show ?case by simp
next
  case (Cons t ts)
  obtain rs cs w where st: "st = (rs, cs, w)" by (cases st)
  have "fst (ticker_step prov s e b st t) = rs @ [zero_result t]"
    unfolding st by (rule ticker_step_failed) (simp add: Cons.prems)
  then show ?case using Cons.IH [of "ticker_step prov s e b st t"] Cons.prems by (simp add: st)
qed

section \<open>Sorting keeps the items\<close>

lemma ascending_run_append: "ascending_run lt key p xs = (run, rest) \<Longrightarrow> run @ rest = xs"
proof (induction xs arbitrary: p run rest)
  case Nil then show ?case by simp
next
  case (Cons x xs)
  show ?case
  proof (cases "lt (key x) (key p)")
    case True with Cons.prems show ?thesis by simp
  next
    case False
    obtain r t where rt: "ascending_run lt key x xs = (r, t)"
      by (cases "ascending_run lt key x xs")
    from Cons.IH [OF rt] have "r @ t = xs" .
    with Cons.prems False rt show ?thesis by auto
  qed
qed

lemma descending_run_append: "descending_run lt key p xs = (run, rest) \<Longrightarrow> run @ rest = xs"
proof (induction xs arbitrary: p run rest)
  case Nil then show ?case by simp
next
  case (Cons x xs)
  show ?case
  proof (cases "lt (key x) (key p)")
    case False with Cons.prems show ?thesis by simp
  next
    case True
    obtain r t where rt: "descending_run lt key x xs = (r, t)"
      by (cases "descending_run lt key x xs")
    from Cons.IH [OF rt] have "r @ t = xs" .
    with Cons.prems True rt show ?thesis by auto
  qed
qed

lemma binarysort_length: "length (binarysort lt key a rest) = length a + length rest"
  by (induction rest arbitrary: a) (simp_all add: Let_def)

lemma set_insert_at: "set (take l a @ p # drop l a) = insert p (set a)"
proof -
  have "set (take l a) \<union> set (drop l a) = set a"
    by (metis append_take_drop_id set_append)
  then show ?thesis by auto
qed

lemma binarysort_set: "set (binarysort lt key a rest) = set a \<union> set rest"
proof (induction rest arbitrary: a)
  case Nil show ?case by simp
next
  case (Cons p rest)
  show ?case
    by (simp only: binarysort.simps Let_def Cons.IH set_insert_at) auto
qed

lemma py_sorted_length: "length (py_sorted lt key xs) = length xs"
proof (cases xs)
  case Nil then show ?thesis by simp
next
  case (Cons x0 zs)
  show ?thesis
  proof (cases zs)
    case Nil then show ?thesis using Cons by simp
  next
    case (Cons x1 ys)
    obtain r1 t1 where a: "ascending_run lt key x1 ys = (r1, t1)"
      by (cases "ascending_run lt key x1 ys")
    obtain r2 t2 where d: "descending_run lt key x1 ys = (r2, t2)"
      by (cases "descending_run lt key x1 ys")
    have "length r1 + length t1 = length ys" "length r2 + length t2 = length ys"
      using ascending_run_append [OF a] descending_run_append [OF d] by (metis length_append)+
    then show ?thesis
      using \<open>xs = x0 # zs\<close> Cons by (simp add: a d binarysort_length)
  qed
qed

lemma py_sorted_set: "set (py_sorted lt key xs) = set xs"
proof (cases xs)
  case Nil then show ?thesis by simp
next
  case (Cons x0 zs)
  show ?thesis
  proof (cases zs)
    case Nil then show ?thesis using Cons by simp
  next
    case (Cons x1 ys)
    obtain r1 t1 where a: "ascending_run lt key x1 ys = (r1, t1)"
      by (cases "ascending_run lt key x1 ys")
    obtain r2 t2 where d: "descending_run lt key x1 ys = (r2, t2)"
      by (cases "descending_run lt key x1 ys")
    have "set r1 \<union> set t1 = set ys" "set r2 \<union> set t2 = set ys"
      using ascending_run_append [OF a] descending_run_append [OF d] by (metis set_append)+
    then show ?thesis
      using \<open>xs = x0 # zs\<close> Cons by (auto simp: a d binarysort_set)
  qed
qed

lemma py_sorted_Nil_iff: "py_sorted lt key xs = [] \<longleftrightarrow> xs = []"
  using py_sorted_length [of lt key xs] by (metis length_0_conv)

section \<open>The response\<close>

lemma get_stock_analysis_no_tickers:
  assumes "benchmark_loop prov benchmark_options s e ([], None, w) = (br, bu, w1)" and "br \<noteq> []"
  shows "get_stock_analysis prov [] s e w
           = (Error500 ''Error in analysis: list index out of range'', w1)"
  using assms
  by (simp add: get_stock_analysis_def get_stock_analysis_try_def ticker_loop_def)

lemma get_stock_analysis_ok:
  assumes "benchmark_loop prov benchmark_options s e ([], None, w) = (br, bu, w1)"
    and "br \<noteq> []" and "tickers \<noteq> []"
    and "ticker_loop prov tickers s e br w1 = (results, correlations, w2)"
  shows "get_stock_analysis prov tickers s e w
           = (Ok200 \<lparr>stockData = results,
                     benchmarkReturns = map nan_to_zero (values_of br),
                     benchmarkUsed = bu,
                     highestCorrTicker = fst (last (py_sorted flt snd correlations)),
                     lowestCorrTicker = fst (hd (py_sorted flt snd correlations))\<rparr>, w2)"
proof -
  have "correlations \<noteq> []"
    using foldl_ticker_step_correlations [of "([], [], w1)" tickers prov s e br] assms(3,4)
    by (simp add: ticker_loop_def)
  then have "py_sorted flt snd correlations \<noteq> []"
    by (simp add: py_sorted_Nil_iff)
  then show ?thesis
    using assms
    by (simp add: get_stock_analysis_def get_stock_analysis_try_def Let_def)
qed


section \<open>The example market, evaluated\<close>

lemma fetch_market:
  "get_monthly_returns (table_provider market_table) ''^IXIC'' s e w
     = ([(2, Fin 0), (3, Fin 1), (4, Fin 2)],
        w\<lparr>provider_state := (), requests := requests w @ [HistoryPeriod1d ''^IXIC'', HistoryMonthly ''^IXIC'' s e]\<rparr>)"
  "get_monthly_returns (table_provider market_table) ''AAA'' s e w
     = ([(2, Fin 0), (3, Fin 1), (4, Fin 2)],
        w\<lparr>provider_state := (), requests := requests w @ [HistoryPeriod1d ''AAA'', HistoryMonthly ''AAA'' s e]\<rparr>)"
  "get_monthly_returns (table_provider market_table) ''BBB'' s e w
     = ([(2, Fin 0), (3, Fin 0), (4, Fin 0)],
        w\<lparr>provider_state := (), requests := requests w @ [HistoryPeriod1d ''BBB'', HistoryMonthly ''BBB'' s e]\<rparr>)"
  "get_monthly_returns (table_provider market_table) ''CCC'' s e w
     = ([(2, Fin 2), (3, Fin 1), (4, Fin 0)],
        w\<lparr>provider_state := (), requests := requests w @ [HistoryPeriod1d ''CCC'', HistoryMonthly ''CCC'' s e]\<rparr>)"
  by (simp_all add: eval_fetch market_table_def)

lemmas eval_corr = raw_correlation_def aligned_data_def List.map_filter_def column0_def column1_def
  corr_def corrcoef_def deviations_def cov_scale_def fdot_def fsum_def fsub_def Let_def

lemma corr_market:
  "raw_correlation [(2, Fin 0), (3, Fin 1), (4, Fin 2)] [(2, Fin 0), (3, Fin 1), (4, Fin 2)] = Fin 1"
  "raw_correlation [(2, Fin 0), (3, Fin 0), (4, Fin 0)] [(2, Fin 0), (3, Fin 1), (4, Fin 2)] = NaN"
  "raw_correlation [(2, Fin 2), (3, Fin 1), (4, Fin 0)] [(2, Fin 0), (3, Fin 1), (4, Fin 2)] = Fin (- 1)"
  by (simp_all add: eval_corr)

lemma sorted_market:
  "py_sorted flt snd [(''AAA'', Fin 1), (''BBB'', NaN), (''CCC'', Fin (- 1))]
     = [(''AAA'', Fin 1), (''BBB'', NaN), (''CCC'', Fin (- 1))]"
  by simp

lemmas eval_sharpe = calculate_sharpe_ratio_def default_risk_free_rate_def excess_returns_def
  values_of_def series_std_def series_var_def series_mean_def valid_def feq_def fsum_def fsub_def Let_def

lemma sharpe_market:
  "calculate_sharpe_ratio [(2, Fin 0), (3, Fin 1), (4, Fin 2)] default_risk_free_rate
     = Fin (sqrt 12 * (599 / 600))"
  "calculate_sharpe_ratio [(2, Fin 0), (3, Fin 0), (4, Fin 0)] default_risk_free_rate = Fin 0"
  "calculate_sharpe_ratio [(2, Fin 2), (3, Fin 1), (4, Fin 0)] default_risk_free_rate
     = Fin (sqrt 12 * (599 / 600))"
  by (simp_all add: eval_sharpe power2_eq_square)

lemma market_analysis:
  "fst (get_stock_analysis (table_provider market_table) [''AAA'', ''BBB'', ''CCC''] s e w)
     = Ok200 market_response"
proof -
  let ?br = "[(2, Fin 0), (3, Fin 1), (4, Fin 2)]"
  have bl: "benchmark_loop (table_provider market_table) benchmark_options s e ([], None, w)
      = (?br, Some ''^IXIC'',
         w\<lparr>provider_state := (),
           requests := requests w @ [HistoryPeriod1d ''^IXIC'', HistoryMonthly ''^IXIC'' s e]\<rparr>)"
    by (simp add: benchmark_loop_options fetch_market)
  obtain results correlations w2 where
    tl: "ticker_loop (table_provider market_table) [''AAA'', ''BBB'', ''CCC''] s e ?br
           (w\<lparr>provider_state := (),
              requests := requests w @ [HistoryPeriod1d ''^IXIC'', HistoryMonthly ''^IXIC'' s e]\<rparr>)
         = (results, correlations, w2)"
    using prod_cases3 by blast
  have r: "results = stockData market_response"
    using tl [symmetric]
    by (simp add: ticker_loop_def ticker_step_eq fetch_market corr_market sharpe_market
        market_response_def nan_to_zero_def values_of_def Let_def)
  have c: "correlations = [(''AAA'', Fin 1), (''BBB'', NaN), (''CCC'', Fin (- 1))]"
    using tl [symmetric]
    by (simp add: ticker_loop_def ticker_step_eq fetch_market corr_market Let_def)
  show ?thesis
    using get_stock_analysis_ok [OF bl _ _ tl]
    by (simp add: r c sorted_market market_response_def nan_to_zero_def values_of_def)
qed


section \<open>No NaN in a response\<close>




section \<open>The summary of a response\<close>

text \<open>
  Claim C7 says that a request with an empty ticker list still succeeds. The
  program evaluated on the empty list, in the example market where the NASDAQ
  benchmark resolves: no correlation is recorded, the fallback \<open>tickers[0]\<close>
  raises IndexError, and the answer is status 500.
\<close>

theorem empty_ticker_list_fails:
  "first_ticker [] = Inl IndexError
   \<and> get_stock_analysis (table_provider market_table) [] start0 end0 world0
       = (Error500 ''Error in analysis: list index out of range'',
          \<lparr>provider_state = (),
           requests = [HistoryPeriod1d ''^IXIC'', HistoryMonthly ''^IXIC'' start0 end0]\<rparr>)"
proof -
  have bl: "benchmark_loop (table_provider market_table) benchmark_options start0 end0 ([], None, world0)
      = ([(2, Fin 0), (3, Fin 1), (4, Fin 2)], Some ''^IXIC'',
         \<lparr>provider_state = (),
          requests = [HistoryPeriod1d ''^IXIC'', HistoryMonthly ''^IXIC'' start0 end0]\<rparr>)"
    by (simp add: benchmark_loop_options fetch_market world0_def)
  show ?thesis
    using get_stock_analysis_no_tickers [OF bl] by simp
qed


text \<open>
  Claim C8 says that the tickers are ranked by ascending correlation and that
  the lowest and the highest are the ends of the ranking. The program
  evaluated on the three tickers of the example market: the correlation of
  the ticker whose price never changes is NaN, every comparison with it is
  false, the sort leaves the items in request order, and the ticker reported
  as lowest has the highest correlation in the response.
\<close>

theorem nan_correlation_breaks_ranking:
  "fst (get_stock_analysis (table_provider market_table) [''AAA'', ''BBB'', ''CCC''] start0 end0 world0)
     = Ok200 market_response
   \<and> map (\<lambda>r. (ticker r, correlation r)) (stockData market_response)
       = [(''AAA'', Fin 1), (''BBB'', Fin 0), (''CCC'', Fin (- 1))]
   \<and> lowestCorrTicker market_response = ''AAA''
   \<and> highestCorrTicker market_response = ''CCC''
   \<and> py_sorted flt snd [(''AAA'', Fin 1), (''BBB'', NaN), (''CCC'', Fin (- 1))]
       = [(''AAA'', Fin 1), (''BBB'', NaN), (''CCC'', Fin (- 1))]"
  using market_analysis [of start0 end0 world0] sorted_market
  by (simp add: market_response_def)

section \<open>One result per ticker\<close>

text \<open>
  For a non-empty ticker list and a benchmark that resolves, the answer has
  status 200 whatever the provider does for the tickers, with one result per
  ticker in request order, duplicates included. A ticker whose fetch gives an
  empty series gets correlation 0.0, Sharpe ratio 0.0 and no returns.
\<close>

lemma foldl_ticker_step_extends:
  "\<exists>ys. fst (foldl (ticker_step prov s e b) st ts) = fst st @ ys \<and> length ys = length ts"
proof (induction ts arbitrary: st)
  case Nil show ?case by simp
next
  case (Cons t ts)
  obtain rs cs w where st: "st = (rs, cs, w)" by (cases st)
  obtain r where r: "fst (ticker_step prov s e b st t) = rs @ [r]"
    by (simp add: st ticker_step_eq Let_def)
  from Cons.IH [of "ticker_step prov s e b st t"] obtain ys where
    "fst (foldl (ticker_step prov s e b) (ticker_step prov s e b st t) ts) = (rs @ [r]) @ ys"
    "length ys = length ts"
    unfolding r by blast
  then have "fst (foldl (ticker_step prov s e b) st (t # ts)) = fst st @ (r # ys)
             \<and> length (r # ys) = length (t # ts)"
    by (simp add: st)
  then show ?case by blast
qed

lemma ticker_loop_nth:
  assumes "i < length ts"
  shows "fst (ticker_loop prov ts s e b w) ! i
           = last (fst (ticker_step prov s e b (ticker_loop prov (take i ts) s e b w) (ts ! i)))"
proof -
  let ?step = "ticker_step prov s e b"
  let ?st = "foldl ?step ([], [], w) (take i ts)"
  have ts: "ts = take i ts @ (ts ! i) # drop (Suc i) ts"
    using assms by (simp add: id_take_nth_drop)
  have all: "foldl ?step ([], [], w) ts = foldl ?step (?step ?st (ts ! i)) (drop (Suc i) ts)"
    by (subst ts) (simp only: foldl_append foldl_Cons)
  obtain rs cs w' where st: "?st = (rs, cs, w')" by (cases ?st)
  have len: "length rs = i"
    using foldl_ticker_step_extends [of prov s e b "([], [], w)" "take i ts"] assms
    by (auto simp: st)
  obtain r where r: "fst (?step ?st (ts ! i)) = rs @ [r]"
    by (simp add: st ticker_step_eq Let_def)
  obtain ys where "fst (foldl ?step (?step ?st (ts ! i)) (drop (Suc i) ts)) = (rs @ [r]) @ ys"
    using foldl_ticker_step_extends [of prov s e b "?step ?st (ts ! i)" "drop (Suc i) ts"]
    unfolding r by blast
  then have "fst (foldl ?step ([], [], w) ts) ! i = r"
    unfolding all using len by (simp add: nth_append)
  then show ?thesis by (simp add: ticker_loop_def r)
qed

lemma one_result_per_ticker:
  assumes "benchmark_loop prov benchmark_options s e ([], None, w) = (br, bu, w1)"
    and "br \<noteq> []" and "tickers \<noteq> []"
  shows "\<exists>a. fst (get_stock_analysis prov tickers s e w) = Ok200 a
            \<and> stockData a = fst (ticker_loop prov tickers s e br w1)
            \<and> map ticker (stockData a) = tickers
            \<and> length (stockData a) = length tickers
            \<and> ((\<forall>t w'. t \<in> set tickers \<longrightarrow> fst (get_monthly_returns prov t s e w') = [])
                  \<longrightarrow> stockData a = map zero_result tickers)"
proof -
  obtain results correlations w2 where
    tl: "ticker_loop prov tickers s e br w1 = (results, correlations, w2)"
    by (cases "ticker_loop prov tickers s e br w1")
  have m: "map ticker results = tickers"
    using foldl_ticker_step_tickers [of prov s e br "([], [], w1)" tickers] tl
    by (simp add: ticker_loop_def)
  then have l: "length results = length tickers"
    by (metis length_map)
  have z: "results = map zero_result tickers"
    if "\<forall>t w'. t \<in> set tickers \<longrightarrow> fst (get_monthly_returns prov t s e w') = []"
    using foldl_ticker_step_all_failed [of tickers prov s e br "([], [], w1)"] that tl
    by (simp add: ticker_loop_def)
  show ?thesis
    using get_stock_analysis_ok [OF assms tl] m l z by (simp add: tl)
qed

lemma failed_ticker_result:
  assumes "benchmark_loop prov benchmark_options s e ([], None, w) = (br, bu, w1)"
    and "br \<noteq> []" and "i < length tickers"
    and "fst (get_monthly_returns prov (tickers ! i) s e
                (snd (snd (ticker_loop prov (take i tickers) s e br w1)))) = []"
  shows "\<exists>a. fst (get_stock_analysis prov tickers s e w) = Ok200 a
            \<and> stockData a ! i = zero_result (tickers ! i)"
proof -
  from assms(3) have ne: "tickers \<noteq> []" by auto
  obtain a where a: "fst (get_stock_analysis prov tickers s e w) = Ok200 a"
    "stockData a = fst (ticker_loop prov tickers s e br w1)"
    using one_result_per_ticker [OF assms(1,2) ne] by blast
  obtain rs cs w' where st: "ticker_loop prov (take i tickers) s e br w1 = (rs, cs, w')"
    by (cases "ticker_loop prov (take i tickers) s e br w1")
  have "fst (ticker_step prov s e br (rs, cs, w') (tickers ! i)) = rs @ [zero_result (tickers ! i)]"
    by (rule ticker_step_failed) (use assms(4) st in simp)
  then have "stockData a ! i = zero_result (tickers ! i)"
    using ticker_loop_nth [OF assms(3), of prov s e br w1] by (simp add: a st)
  with a show ?thesis by blast
qed

section \<open>Correlation on finite values\<close>



lemma map2_conv_zip: "map2 f xs ys = map (\<lambda>p. f (fst p) (snd p)) (zip xs ys)"
  by (simp add: case_prod_beta)












section \<open>Alignment\<close>






lemma column_lengths: "length (column0 rows) = length (column1 rows)"
  by (simp add: column0_def column1_def)

section \<open>The correlation of a ticker\<close>



section \<open>Sorting keys that are not NaN\<close>

text \<open>
  When no key is NaN the model of \<open>sorted\<close> returns the items in ascending
  order of their keys. For the analysis this gives: when no correlation in
  the map is NaN, the ranking is ascending and the tickers reported as lowest
  and highest have the least and the greatest correlation.
\<close>

lemma fle_trans: "\<not> isnan a \<Longrightarrow> \<not> isnan b \<Longrightarrow> \<not> isnan c \<Longrightarrow> fle a b \<Longrightarrow> fle b c \<Longrightarrow> fle a c"
  by (cases a; cases b; cases c) (auto simp: fle_def)

lemma flt_fle: "flt a b \<Longrightarrow> fle a b"
  by (cases a; cases b) (auto simp: fle_def)

lemma flt_fle_trans: "\<not> isnan a \<Longrightarrow> \<not> isnan b \<Longrightarrow> \<not> isnan c \<Longrightarrow> flt a b \<Longrightarrow> fle b c \<Longrightarrow> flt a c"
  by (cases a; cases b; cases c) (auto simp: fle_def)

lemma insertion_point_bounds:
  assumes "l \<le> r" "r \<le> length a" "no_nan_keys key a" "\<not> isnan (key pivot)" "ascending key a"
    and "\<forall>i<l. fle (key (a ! i)) (key pivot)"
    and "\<forall>i. r \<le> i \<and> i < length a \<longrightarrow> flt (key pivot) (key (a ! i))"
  shows "insertion_point flt key pivot a l r \<le> length a
       \<and> (\<forall>i < insertion_point flt key pivot a l r. fle (key (a ! i)) (key pivot))
       \<and> (\<forall>i. insertion_point flt key pivot a l r \<le> i \<and> i < length a
              \<longrightarrow> flt (key pivot) (key (a ! i)))"
  using assms
proof (induction "r - l" arbitrary: l r rule: less_induct)
  case less
  note prems = less.prems
  have nn: "\<And>i. i < length a \<Longrightarrow> \<not> isnan (key (a ! i))"
    using prems(3) by (simp add: no_nan_keys_def list_all_length)
  have asc: "\<And>i j. i < j \<Longrightarrow> j < length a \<Longrightarrow> fle (key (a ! i)) (key (a ! j))"
    using prems(5) by (simp add: ascending_def sorted_wrt_iff_nth_less)
  show ?case
  proof (cases "l < r")
    case False
    then have "insertion_point flt key pivot a l r = l"
      by (simp add: insertion_point.simps)
    moreover have "l = r" using False prems(1) by simp
    ultimately show ?thesis using prems by simp
  next
    case True
    define p where "p = l + (r - l) div 2"
    have p: "l \<le> p" "p < r" "p < length a" using True prems(2) by (auto simp: p_def)
    show ?thesis
    proof (cases "flt (key pivot) (key (a ! p))")
      case lt: True
      have eq: "insertion_point flt key pivot a l r = insertion_point flt key pivot a l p"
        using True lt by (subst insertion_point.simps) (simp add: p_def Let_def)
      have up: "\<forall>i. p \<le> i \<and> i < length a \<longrightarrow> flt (key pivot) (key (a ! i))"
      proof (intro allI impI)
        fix i assume i: "p \<le> i \<and> i < length a"
        show "flt (key pivot) (key (a ! i))"
        proof (cases "i = p")
          case True then show ?thesis using lt by simp
        next
          case False
          then have "fle (key (a ! p)) (key (a ! i))" using asc [of p i] i by simp
          then show ?thesis
            using flt_fle_trans [OF prems(4) nn [OF p(3)] nn [of i] lt] i by simp
        qed
      qed
      show ?thesis
        unfolding eq
        using less.hyps [of p l] True p prems up by simp
    next
      case nlt: False
      have eq: "insertion_point flt key pivot a l r = insertion_point flt key pivot a (p + 1) r"
        using True nlt by (subst insertion_point.simps) (simp add: p_def Let_def)
      have lo: "\<forall>i<p + 1. fle (key (a ! i)) (key pivot)"
      proof (intro allI impI)
        fix i assume i: "i < p + 1"
        have pp: "fle (key (a ! p)) (key pivot)" using nlt by (simp add: fle_def)
        show "fle (key (a ! i)) (key pivot)"
        proof (cases "i = p")
          case True then show ?thesis using pp by simp
        next
          case False
          then have ip: "i < p" using i by simp
          then have "fle (key (a ! i)) (key (a ! p))" using asc [of i p] p by simp
          then show ?thesis
            using fle_trans [OF nn [of i] nn [OF p(3)] prems(4) _ pp] ip p by simp
        qed
      qed
      show ?thesis
        unfolding eq
        using less.hyps [of r "p + 1"] True p prems lo by simp
    qed
  qed
qed


lemma flt_trans: "\<not> isnan a \<Longrightarrow> \<not> isnan b \<Longrightarrow> \<not> isnan c \<Longrightarrow> flt a b \<Longrightarrow> flt b c \<Longrightarrow> flt a c"
  by (cases a; cases b; cases c) auto

lemma ascending_Cons2:
  assumes "fle (key p) (key x)" "ascending key (x # r)" "no_nan_keys key (p # x # r)"
  shows "ascending key (p # x # r)"
proof -
  have "fle (key p) (key y)" if "y \<in> set r" for y
  proof -
    have "fle (key x) (key y)" using assms(2) that by (simp add: ascending_def)
    moreover have "\<not> isnan (key p)" "\<not> isnan (key x)" "\<not> isnan (key y)"
      using assms(3) that by (auto simp: no_nan_keys_def list_all_iff)
    ultimately show ?thesis using fle_trans assms(1) by blast
  qed
  then show ?thesis using assms(1,2) by (simp add: ascending_def)
qed

lemma ascending_run_ascending:
  assumes "ascending_run flt key p xs = (run, rest)" "no_nan_keys key (p # xs)"
  shows "ascending key (p # run)"
  using assms
proof (induction xs arbitrary: p run rest)
  case Nil then show ?case by (simp add: ascending_def)
next
  case (Cons x xs)
  show ?case
  proof (cases "flt (key x) (key p)")
    case True with Cons.prems show ?thesis by (simp add: ascending_def)
  next
    case False
    obtain r t where rt: "ascending_run flt key x xs = (r, t)"
      by (cases "ascending_run flt key x xs")
    have run: "run = x # r" using Cons.prems(1) False rt by simp
    have nn: "no_nan_keys key (x # xs)" using Cons.prems(2) by (simp add: no_nan_keys_def)
    have asc: "ascending key (x # r)" using Cons.IH [OF rt nn] .
    have "set r \<subseteq> set xs" using ascending_run_append [OF rt] by auto
    then have "no_nan_keys key (p # x # r)"
      using Cons.prems(2) by (auto simp: no_nan_keys_def list_all_iff)
    then show ?thesis
      unfolding run using False asc by (intro ascending_Cons2) (simp_all add: fle_def)
  qed
qed

lemma descending_run_descending:
  assumes "descending_run flt key p xs = (run, rest)" "no_nan_keys key (p # xs)"
  shows "sorted_wrt (\<lambda>x y. flt (key y) (key x)) (p # run)"
  using assms
proof (induction xs arbitrary: p run rest)
  case Nil then show ?case by simp
next
  case (Cons x xs)
  show ?case
  proof (cases "flt (key x) (key p)")
    case False with Cons.prems show ?thesis by simp
  next
    case True
    obtain r t where rt: "descending_run flt key x xs = (r, t)"
      by (cases "descending_run flt key x xs")
    have run: "run = x # r" using Cons.prems(1) True rt by simp
    have nn: "no_nan_keys key (x # xs)" using Cons.prems(2) by (simp add: no_nan_keys_def)
    have d: "sorted_wrt (\<lambda>x y. flt (key y) (key x)) (x # r)" using Cons.IH [OF rt nn] .
    have sub: "set r \<subseteq> set xs" using descending_run_append [OF rt] by auto
    have "flt (key y) (key p)" if "y \<in> set r" for y
    proof -
      have "flt (key y) (key x)" using d that by simp
      moreover have "\<not> isnan (key p)" "\<not> isnan (key x)" "\<not> isnan (key y)"
        using Cons.prems(2) that sub by (auto simp: no_nan_keys_def list_all_iff)
      ultimately show ?thesis using flt_trans True by blast
    qed
    then show ?thesis unfolding run using True d by simp
  qed
qed

lemma insert_at_ascending:
  assumes "ascending key a" "no_nan_keys key a" "\<not> isnan (key pivot)"
  shows "ascending key (take (insertion_point flt key pivot a 0 (length a)) a
                         @ pivot # drop (insertion_point flt key pivot a 0 (length a)) a)"
proof -
  let ?l = "insertion_point flt key pivot a 0 (length a)"
  have b: "?l \<le> length a" "\<forall>i < ?l. fle (key (a ! i)) (key pivot)"
    "\<forall>i. ?l \<le> i \<and> i < length a \<longrightarrow> flt (key pivot) (key (a ! i))"
  proof -
    have v: "\<forall>i. length a \<le> i \<and> i < length a \<longrightarrow> flt (key pivot) (key (a ! i))"
      by auto
    have u: "\<forall>i<0::nat. fle (key (a ! i)) (key pivot)" by simp
    note r = insertion_point_bounds [OF le0 le_refl assms(2,3,1) u v]
    from r show "?l \<le> length a" by blast
    from r show "\<forall>i < ?l. fle (key (a ! i)) (key pivot)" by blast
    from r show "\<forall>i. ?l \<le> i \<and> i < length a \<longrightarrow> flt (key pivot) (key (a ! i))" by blast
  qed
  have a: "sorted_wrt (\<lambda>x y. fle (key x) (key y)) (take ?l a)"
    "sorted_wrt (\<lambda>x y. fle (key x) (key y)) (drop ?l a)"
    "\<forall>x\<in>set (take ?l a). \<forall>y\<in>set (drop ?l a). fle (key x) (key y)"
    using assms(1)
      sorted_wrt_append [of "\<lambda>x y. fle (key x) (key y)" "take ?l a" "drop ?l a"]
    by (simp_all add: ascending_def)
  have lo: "fle (key x) (key pivot)" if "x \<in> set (take ?l a)" for x
  proof -
    from that obtain i where "i < length (take ?l a)" "x = take ?l a ! i"
      by (auto simp: in_set_conv_nth)
    then show ?thesis using b(2) by simp
  qed
  have hi: "fle (key pivot) (key y)" if "y \<in> set (drop ?l a)" for y
  proof -
    from that obtain i where i: "i < length (drop ?l a)" "y = drop ?l a ! i"
      by (auto simp: in_set_conv_nth)
    then have "y = a ! (?l + i)" "?l + i < length a" using b(1) by simp_all
    then show ?thesis using b(3) flt_fle by simp
  qed
  show ?thesis
    unfolding ascending_def using a lo hi
    by (auto simp: sorted_wrt_append)
qed

lemma binarysort_ascending:
  assumes "ascending key a" "no_nan_keys key a" "no_nan_keys key rest"
  shows "ascending key (binarysort flt key a rest)"
  using assms
proof (induction rest arbitrary: a)
  case Nil then show ?case by simp
next
  case (Cons pivot rest)
  let ?l = "insertion_point flt key pivot a 0 (length a)"
  have p: "\<not> isnan (key pivot)" and r: "no_nan_keys key rest"
    using Cons.prems(3) by (simp_all add: no_nan_keys_def)
  have 1: "ascending key (take ?l a @ pivot # drop ?l a)"
    by (rule insert_at_ascending [OF Cons.prems(1,2) p])
  have 2: "no_nan_keys key (take ?l a @ pivot # drop ?l a)"
    using Cons.prems(2) p unfolding no_nan_keys_def list_all_iff set_insert_at by simp
  show ?case
    using Cons.IH [OF 1 2 r] by (simp add: Let_def)
qed

lemma py_sorted_ascending:
  assumes "no_nan_keys key xs"
  shows "ascending key (py_sorted flt key xs)"
proof (cases xs)
  case Nil then show ?thesis by (simp add: ascending_def)
next
  case (Cons x0 zs)
  note xs = Cons
  show ?thesis
  proof (cases zs)
    case Nil then show ?thesis using xs by (simp add: ascending_def)
  next
    case (Cons x1 ys)
    have nn1: "no_nan_keys key (x1 # ys)" using assms xs Cons by (simp add: no_nan_keys_def)
    show ?thesis
    proof (cases "flt (key x1) (key x0)")
      case True
      obtain r t where d: "descending_run flt key x1 ys = (r, t)"
        by (cases "descending_run flt key x1 ys")
      have app: "r @ t = ys" using descending_run_append [OF d] .
      have nn: "no_nan_keys key (x0 # x1 # r)" "no_nan_keys key t"
        using assms xs Cons app by (auto simp: no_nan_keys_def)
      have "sorted_wrt (\<lambda>x y. flt (key y) (key x)) (x1 # r)"
        using descending_run_descending [OF d nn1] .
      moreover have "flt (key y) (key x0)" if "y \<in> set r" for y
      proof -
        have "flt (key y) (key x1)"
          using \<open>sorted_wrt (\<lambda>x y. flt (key y) (key x)) (x1 # r)\<close> that by simp
        moreover have "\<not> isnan (key x0)" "\<not> isnan (key x1)" "\<not> isnan (key y)"
          using nn(1) that by (auto simp: no_nan_keys_def list_all_iff)
        ultimately show ?thesis using flt_trans True by blast
      qed
      ultimately have "sorted_wrt (\<lambda>x y. flt (key y) (key x)) (x0 # x1 # r)"
        using True by simp
      then have "sorted_wrt (\<lambda>x y. fle (key y) (key x)) (x0 # x1 # r)"
        by (rule sorted_wrt_mono_rel [rotated]) (simp add: flt_fle)
      then have 1: "ascending key (rev (x0 # x1 # r))"
        unfolding ascending_def by (simp only: sorted_wrt_rev)
      have 2: "no_nan_keys key (rev (x0 # x1 # r))"
        using nn(1) by (simp add: no_nan_keys_def)
      show ?thesis
        using binarysort_ascending [OF 1 2 nn(2)] True d xs Cons by simp
    next
      case False
      obtain r t where a: "ascending_run flt key x1 ys = (r, t)"
        by (cases "ascending_run flt key x1 ys")
      have app: "r @ t = ys" using ascending_run_append [OF a] .
      have nn: "no_nan_keys key (x0 # x1 # r)" "no_nan_keys key t"
        using assms xs Cons app by (auto simp: no_nan_keys_def)
      have 1: "ascending key (x0 # x1 # r)"
        using False ascending_run_ascending [OF a nn1] nn(1)
        by (intro ascending_Cons2) (simp_all add: fle_def)
      show ?thesis
        using binarysort_ascending [OF 1 nn] False a xs Cons by simp
    qed
  qed
qed


lemma fle_refl: "fle c c"
  by (cases c) (simp_all add: fle_def)

lemma ascending_ends:
  assumes "ascending key xs" "x \<in> set xs"
  shows "fle (key (hd xs)) (key x)" "fle (key x) (key (last xs))"
proof -
  from assms(2) obtain y ys where xs: "xs = y # ys" by (cases xs) auto
  show "fle (key (hd xs)) (key x)"
    using assms unfolding xs ascending_def by (auto simp: fle_refl)
  from assms(2) have ne: "xs \<noteq> []" by auto
  then have bl: "xs = butlast xs @ [last xs]" by simp
  have "sorted_wrt (\<lambda>x y. fle (key x) (key y)) (butlast xs @ [last xs])"
    using assms(1) bl by (simp add: ascending_def)
  then have "\<forall>z \<in> set (butlast xs). fle (key z) (key (last xs))"
    by (simp add: sorted_wrt_append)
  moreover have "x \<in> set (butlast xs) \<or> x = last xs"
    using assms(2) bl by (metis Un_iff insert_iff list.simps(15) set_append empty_iff empty_set)
  ultimately show "fle (key x) (key (last xs))"
    by (auto simp: fle_refl)
qed

lemma ranking_without_nan:
  assumes "benchmark_loop prov benchmark_options s e ([], None, w) = (br, bu, w1)"
    and "br \<noteq> []" and "tickers \<noteq> []"
    and "ticker_loop prov tickers s e br w1 = (results, correlations, w2)"
    and "no_nan_keys snd correlations"
  shows "\<exists>a. fst (get_stock_analysis prov tickers s e w) = Ok200 a
           \<and> ascending snd (py_sorted flt snd correlations)
           \<and> lowestCorrTicker a = fst (hd (py_sorted flt snd correlations))
           \<and> highestCorrTicker a = fst (last (py_sorted flt snd correlations))
           \<and> list_all (\<lambda>tc. fle (snd (hd (py_sorted flt snd correlations))) (snd tc)
                          \<and> fle (snd tc) (snd (last (py_sorted flt snd correlations))))
                correlations"
proof -
  have asc: "ascending snd (py_sorted flt snd correlations)"
    by (rule py_sorted_ascending [OF assms(5)])
  have "fle (snd (hd (py_sorted flt snd correlations))) (snd tc)
          \<and> fle (snd tc) (snd (last (py_sorted flt snd correlations)))"
    if "tc \<in> set correlations" for tc
    using ascending_ends [OF asc, of tc] that by (simp add: py_sorted_set)
  then have "list_all (\<lambda>tc. fle (snd (hd (py_sorted flt snd correlations))) (snd tc)
                          \<and> fle (snd tc) (snd (last (py_sorted flt snd correlations))))
                correlations"
    by (simp add: list_all_iff)
  then show ?thesis
    using get_stock_analysis_ok [OF assms(1-4)] asc by simp
qed

end
